theory Spec2Isabelle
  imports Main "HOL-Library.Multiset"
begin

section \<open>Suggested fixes (autofix.js, class SuggestedFix)\<close>

text \<open>
  The JavaScript class has eight untyped fields. The record is polymorphic in the type
  of the text fields and of the line numbers: the response converter fills it with raw
  JSON values, the appliers read it at the documented types (strings and numbers).
  The fields \<open>id\<close> and \<open>type\<close> of the source are named \<open>fix_id\<close> and \<open>fix_type\<close>.
\<close>

record ('s, 'n) SuggestedFix =
  fix_id :: 's
  description :: 's
  originalCode :: 's
  fixedCode :: 's
  lineStart :: 'n
  lineEnd :: 'n
  severity :: 's
  fix_type :: 's

type_synonym suggested_fix = "(string, int) SuggestedFix"

section \<open>Strings\<close>

text \<open>
  \<open>String.prototype.indexOf\<close>: the least offset at which the search string occurs in
  the text, \<open>-1\<close> when it does not occur. The empty search string occurs at offset 0.
\<close>

fun indexOf :: "string \<Rightarrow> string \<Rightarrow> int" where
  "indexOf [] s = (if s = [] then 0 else -1)"
| "indexOf (c # cs) s =
     (if take (length s) (c # cs) = s then 0
      else (let r = indexOf cs s in if r = -1 then -1 else r + 1))"

text \<open>Decimal printing of a number inside a template string.\<close>

fun show_nat :: "nat \<Rightarrow> string" where
  "show_nat n =
     (if n < 10 then [''0123456789'' ! n]
      else show_nat (n div 10) @ [''0123456789'' ! (n mod 10)])"

section \<open>The editor\<close>

text \<open>
  The host edit primitive \<open>editor.edit\<close> belongs to the editor, not to this repository.
  One request either is carried out (the promise resolves to true and the text of the
  range is replaced), is refused (the promise resolves to false, the text stays), or
  raises. The host is an oracle giving the answer to the n-th request of a batch.
  Ranges are built with \<open>document.positionAt\<close> from offsets into the current text, so
  a carried-out request replaces exactly the characters between the two offsets.
\<close>

datatype edit_response = EditApplied | EditRejected | EditThrew

type_synonym host = "nat \<Rightarrow> edit_response"

definition replaceRange :: "string \<Rightarrow> int \<Rightarrow> int \<Rightarrow> string \<Rightarrow> string" where
  "replaceRange text startOffset endOffset new =
     take (nat startOffset) text @ new @ drop (nat endOffset) text"

section \<open>applyAllFixes\<close>

subsection \<open>Ordering\<close>

text \<open>
  \<open>[...fixes].sort((a, b) => b.lineStart - a.lineStart)\<close>. \<open>Array.prototype.sort\<close> is
  stable, so its result on a consistent comparator is the stable sort; a stable
  insertion sort driven by the same comparator computes it.
\<close>

definition compareFixes :: "suggested_fix \<Rightarrow> suggested_fix \<Rightarrow> int" where
  "compareFixes a b = lineStart b - lineStart a"

fun place :: "('a \<Rightarrow> 'a \<Rightarrow> int) \<Rightarrow> 'a \<Rightarrow> 'a list \<Rightarrow> 'a list" where
  "place cmp a [] = [a]"
| "place cmp a (b # bs) = (if cmp a b \<le> 0 then a # b # bs else b # place cmp a bs)"

fun sort_with :: "('a \<Rightarrow> 'a \<Rightarrow> int) \<Rightarrow> 'a list \<Rightarrow> 'a list" where
  "sort_with cmp [] = []"
| "sort_with cmp (a # as) = place cmp a (sort_with cmp as)"

definition sortedFixes :: "suggested_fix list \<Rightarrow> suggested_fix list" where
  "sortedFixes fixes = sort_with compareFixes fixes"

subsection \<open>The state of one batch\<close>

record modified_range =
  range_start :: int
  range_end :: int

text \<open>
  The three counters and the list of modified ranges are the local variables of
  \<open>applyAllFixes\<close>; \<open>document\<close> is the text of \<open>editor.document\<close>; \<open>editCalls\<close> counts
  the requests sent to the host so far and selects the host's next answer.
\<close>

record batch_state =
  document :: string
  appliedCount :: nat
  failedCount :: nat
  skippedCount :: nat
  modifiedRanges :: "modified_range list"
  editCalls :: nat

definition initial_state :: "string \<Rightarrow> batch_state" where
  "initial_state text =
     \<lparr>document = text, appliedCount = 0, failedCount = 0, skippedCount = 0,
      modifiedRanges = [], editCalls = 0\<rparr>"

subsection \<open>Overlap check\<close>

text \<open>The inner loop over \<open>modifiedRanges\<close>, leaving at the first range that matches.\<close>

fun overlaps :: "int \<Rightarrow> int \<Rightarrow> modified_range list \<Rightarrow> bool" where
  "overlaps startOffset endOffset [] = False"
| "overlaps startOffset endOffset (r # rs) =
     (if (startOffset \<ge> range_start r \<and> startOffset < range_end r) \<or>
         (endOffset > range_start r \<and> endOffset \<le> range_end r) \<or>
         (startOffset \<le> range_start r \<and> endOffset \<ge> range_end r)
      then True
      else overlaps startOffset endOffset rs)"

subsection \<open>The loop body\<close>

definition applyFix :: "host \<Rightarrow> batch_state \<Rightarrow> suggested_fix \<Rightarrow> batch_state" where
  "applyFix h st fx =
     (let fullText = document st;
          originalIndex = indexOf fullText (originalCode fx)
      in if originalIndex = -1 then st\<lparr>failedCount := failedCount st + 1\<rparr>
         else
           let startOffset = originalIndex;
               endOffset = originalIndex + int (length (originalCode fx))
           in if overlaps startOffset endOffset (modifiedRanges st)
              then st\<lparr>skippedCount := skippedCount st + 1\<rparr>
              else
                (case h (editCalls st) of
                   EditApplied \<Rightarrow>
                     st\<lparr>document := replaceRange fullText startOffset endOffset (fixedCode fx),
                        editCalls := editCalls st + 1,
                        appliedCount := appliedCount st + 1,
                        modifiedRanges := modifiedRanges st @
                          [\<lparr>range_start = startOffset, range_end = endOffset\<rparr>]\<rparr>
                 | EditRejected \<Rightarrow>
                     st\<lparr>editCalls := editCalls st + 1, failedCount := failedCount st + 1\<rparr>
                 | EditThrew \<Rightarrow>
                     st\<lparr>editCalls := editCalls st + 1, failedCount := failedCount st + 1\<rparr>))"

fun applyLoop :: "host \<Rightarrow> batch_state \<Rightarrow> suggested_fix list \<Rightarrow> batch_state" where
  "applyLoop h st [] = st"
| "applyLoop h st (fx # fxs) = applyLoop h (applyFix h st fx) fxs"

subsection \<open>The summary message and the whole function\<close>

definition summaryMessage :: "batch_state \<Rightarrow> string" where
  "summaryMessage st =
     (let m0 = ''Applied '' @ show_nat (appliedCount st) @ '' fix'' @
               (if appliedCount st \<noteq> 1 then ''es'' else '''') @ ''.'';
          m1 = (if failedCount st > 0
                then m0 @ '' '' @ show_nat (failedCount st) @ '' could not be applied.''
                else m0)
      in if skippedCount st > 0
         then m1 @ '' '' @ show_nat (skippedCount st) @ '' skipped (overlapping).''
         else m1)"

text \<open>The answer to the warning dialog; \<open>Dismissed\<close> is the dialog closed without a choice.\<close>

datatype batch_choice = YesApplyAll | PreviewFirst | Cancel | Dismissed

text \<open>
  What a call leaves behind: nothing (the dialog was cancelled), the preview panel, or
  the final state of the loop with the message shown to the user.
\<close>

datatype batch_outcome = NotConfirmed | PreviewShown | Completed batch_state string

definition applyAllFixes :: "batch_choice \<Rightarrow> host \<Rightarrow> string \<Rightarrow> suggested_fix list \<Rightarrow> batch_outcome" where
  "applyAllFixes confirm h text fixes =
     (if confirm = Cancel \<or> confirm = Dismissed then NotConfirmed
      else if confirm = PreviewFirst then PreviewShown
      else let st = applyLoop h (initial_state text) (sortedFixes fixes)
           in Completed st (summaryMessage st))"

subsection \<open>Which branch the loop body takes\<close>

text \<open>
  The five ways through the loop body, in the order of the source: the anchor is not in
  the current text; its range collides with a recorded range; the host carried the edit
  out; the host refused it; the host (or anything else inside \<open>try\<close>) threw and the
  \<open>catch\<close> clause ran. \<open>outcomeOf\<close> tests the same conditions as \<open>applyFix\<close>.
\<close>

datatype fix_outcome = Applied | NotFound | SkippedOverlap | HostRejected | HostThrew

definition outcomeOf :: "host \<Rightarrow> batch_state \<Rightarrow> suggested_fix \<Rightarrow> fix_outcome" where
  "outcomeOf h st fx =
     (let originalIndex = indexOf (document st) (originalCode fx)
      in if originalIndex = -1 then NotFound
         else if overlaps originalIndex (originalIndex + int (length (originalCode fx)))
                   (modifiedRanges st)
              then SkippedOverlap
              else (case h (editCalls st) of
                      EditApplied \<Rightarrow> Applied
                    | EditRejected \<Rightarrow> HostRejected
                    | EditThrew \<Rightarrow> HostThrew))"

fun outcomes :: "host \<Rightarrow> batch_state \<Rightarrow> suggested_fix list \<Rightarrow> (suggested_fix \<times> fix_outcome) list" where
  "outcomes h st [] = []"
| "outcomes h st (fx # fxs) = (fx, outcomeOf h st fx) # outcomes h (applyFix h st fx) fxs"

definition tally :: "fix_outcome \<Rightarrow> (suggested_fix \<times> fix_outcome) list \<Rightarrow> nat" where
  "tally oc tr = length (filter (\<lambda>p. snd p = oc) tr)"


section \<open>applySingleFix\<close>

text \<open>
  Positions and ranges of the editor, as \<open>applySingleFix\<close> builds them. The editor
  accepts only positions whose line and character are not negative; the start position
  of the fallback never is, the end position is not when \<open>lineEnd\<close> is not.
\<close>

datatype position = Position (line: int) (character: int)

datatype range = Range (range_from: position) (range_to: position)

text \<open>The answer to the confirmation dialog; \<open>NotApplied\<close> is any other answer or none.\<close>

datatype single_choice = YesApply | PreviewFirstChosen | NotApplied

text \<open>
  The request \<open>applySingleFix\<close> sends to the editor: none, the preview panel, a
  replacement of a range of whole lines (the line fallback), or a replacement of the
  characters between two offsets (the exact match).
\<close>

datatype single_action =
    NoEdit
  | ShowPreview
  | ReplaceLines range string
  | ReplaceSpan int int string

definition fallbackRange :: "suggested_fix \<Rightarrow> range" where
  "fallbackRange fx =
     (let startPos = Position (max 0 (lineStart fx - 1)) 0;
          endPos = Position (lineEnd fx) 0
      in Range startPos endPos)"

definition applySingleFix :: "single_choice \<Rightarrow> string \<Rightarrow> suggested_fix \<Rightarrow> single_action" where
  "applySingleFix confirm fullText fx =
     (let originalIndex = indexOf fullText (originalCode fx)
      in if originalIndex = -1
         then (if confirm \<noteq> YesApply then NoEdit
               else ReplaceLines (fallbackRange fx) (fixedCode fx @ [CHR 0x0A]))
         else (if confirm = YesApply
               then ReplaceSpan originalIndex
                      (originalIndex + int (length (originalCode fx))) (fixedCode fx)
               else if confirm = PreviewFirstChosen then ShowPreview
               else NoEdit))"

subsection \<open>The line fallback as the specification words it\<close>

text \<open>
  The number of lines of a text, and the fallback range of the specification: both
  1-indexed line numbers are clamped to the lines the document has, and the range goes
  from the start of the first line to the start of the line after the last.
\<close>

definition lineCount :: "string \<Rightarrow> int" where
  "lineCount text = int (length (filter (\<lambda>c. c = CHR 0x0A) text)) + 1"

definition spec_clampLine :: "string \<Rightarrow> int \<Rightarrow> int" where
  "spec_clampLine text l = min (lineCount text) (max 1 l)"

definition spec_fallbackRange :: "string \<Rightarrow> suggested_fix \<Rightarrow> range" where
  "spec_fallbackRange text fx =
     Range (Position (spec_clampLine text (lineStart fx) - 1) 0)
           (Position (spec_clampLine text (lineEnd fx)) 0)"

section \<open>analyzeAndGetFixes: from the parsed response to SuggestedFix objects\<close>

text \<open>
  The values \<open>JSON.parse\<close> returns, and \<open>undefined\<close> for a property that is absent.
  Numbers are integers here; the code only tests them for being zero. An object is the
  list of its keys and values, each key once.
\<close>

datatype jsval =
    Undefined
  | Null
  | Bool bool
  | Num int
  | Str string
  | Arr "jsval list"
  | Obj "(string \<times> jsval) list"

datatype js_error = TypeError

fun truthy :: "jsval \<Rightarrow> bool" where
  "truthy Undefined = False"
| "truthy Null = False"
| "truthy (Bool b) = b"
| "truthy (Num n) = (n \<noteq> 0)"
| "truthy (Str s) = (s \<noteq> [])"
| "truthy (Arr xs) = True"
| "truthy (Obj kvs) = True"

text \<open>The operator \<open>||\<close>.\<close>

definition js_or :: "jsval \<Rightarrow> jsval \<Rightarrow> jsval" where
  "js_or a b = (if truthy a then a else b)"

text \<open>
  Reading one of the properties the converter asks for (\<open>fixes\<close> and the eight field
  names) from a value that is neither \<open>null\<close> nor \<open>undefined\<close>: an object gives the
  value stored under the key, anything else has no such property.
\<close>

fun getProp :: "jsval \<Rightarrow> string \<Rightarrow> jsval" where
  "getProp (Obj kvs) k = (case map_of kvs k of None \<Rightarrow> Undefined | Some v \<Rightarrow> v)"
| "getProp v k = Undefined"

type_synonym raw_fix = "(jsval, jsval) SuggestedFix"

text \<open>The callback of \<open>map\<close>; reading a property of \<open>null\<close> or \<open>undefined\<close> throws.\<close>

definition makeSuggestedFix :: "jsval \<Rightarrow> nat \<Rightarrow> js_error + raw_fix" where
  "makeSuggestedFix fx index =
     (if fx = Null \<or> fx = Undefined then Inl TypeError
      else Inr
        \<lparr>fix_id = js_or (getProp fx ''id'') (Str (''fix_'' @ show_nat index)),
         description = js_or (getProp fx ''description'') (Str ''No description''),
         originalCode = js_or (getProp fx ''originalCode'') (Str []),
         fixedCode = js_or (getProp fx ''fixedCode'') (Str []),
         lineStart = js_or (getProp fx ''lineStart'') (Num 1),
         lineEnd = js_or (getProp fx ''lineEnd'') (Num 1),
         severity = js_or (getProp fx ''severity'') (Str ''info''),
         fix_type = js_or (getProp fx ''type'') (Str ''style'')\<rparr>)"

fun mapFixes :: "nat \<Rightarrow> jsval list \<Rightarrow> js_error + raw_fix list" where
  "mapFixes index [] = Inr []"
| "mapFixes index (fx # rest) =
     (case makeSuggestedFix fx index of
        Inl e \<Rightarrow> Inl e
      | Inr f \<Rightarrow>
          (case mapFixes (Suc index) rest of
             Inl e \<Rightarrow> Inl e
           | Inr fs \<Rightarrow> Inr (f # fs)))"

text \<open>
  \<open>(parsed.fixes || []).map(...)\<close>: only an array has \<open>map\<close>; calling it on any other
  truthy value throws, and so does reading \<open>fixes\<close> from \<open>null\<close>.
\<close>

definition convertFixes :: "jsval \<Rightarrow> js_error + raw_fix list" where
  "convertFixes parsed =
     (if parsed = Null \<or> parsed = Undefined then Inl TypeError
      else (case js_or (getProp parsed ''fixes'') (Arr []) of
              Arr xs \<Rightarrow> mapFixes 0 xs
            | _ \<Rightarrow> Inl TypeError))"

section \<open>Inputs of the scenarios\<close>

text \<open>
  A fix with a given anchor, replacement and line range; the other fields carry the
  defaults of the converter. Two hosts: one that answers every request alike, one that
  refuses the first request and carries out the later ones.
\<close>

definition mkFix :: "string \<Rightarrow> string \<Rightarrow> int \<Rightarrow> int \<Rightarrow> suggested_fix" where
  "mkFix anchor replacement ls le =
     \<lparr>fix_id = ''fix_0'', description = ''No description'', originalCode = anchor,
      fixedCode = replacement, lineStart = ls, lineEnd = le,
      severity = ''info'', fix_type = ''style''\<rparr>"

definition always :: "edit_response \<Rightarrow> host" where
  "always r = (\<lambda>n. r)"

definition rejectFirst :: host where
  "rejectFirst = (\<lambda>n. if n = 0 then EditRejected else EditApplied)"

definition scenario_document :: string where
  "scenario_document = ''let x = eval(input);'' @ [CHR 0x0A] @ ''console.log(x);''"

definition scenario_result :: string where
  "scenario_result = ''let x = JSON.parse(input);'' @ [CHR 0x0A] @ ''console.log(x);''"

section \<open>Facts about the building blocks\<close>

lemma indexOf_lower: "- 1 \<le> indexOf t s"
  by (induction t) (auto simp: Let_def)

declare show_nat.simps [simp del]

lemma indexOf_empty: "indexOf t [] = 0"
  by (cases t) simp_all

lemma mset_place: "mset (place cmp a bs) = add_mset a (mset bs)"
  by (induction bs) simp_all

lemma mset_sort_with: "mset (sort_with cmp xs) = mset xs"
  by (induction xs) (simp_all add: mset_place)


lemma length_sort_with: "length (sort_with cmp xs) = length xs"
  using mset_sort_with [of cmp xs] by (metis size_mset)





lemma fst_outcomes: "map fst (outcomes h st fxs) = fxs"
  by (induction fxs arbitrary: st) simp_all

lemma length_outcomes: "length (outcomes h st fxs) = length fxs"
  by (induction fxs arbitrary: st) simp_all

lemma applyLoop_append: "applyLoop h st (xs @ ys) = applyLoop h (applyLoop h st xs) ys"
  by (induction xs arbitrary: st) simp_all

lemma outcomes_append:
  "outcomes h st (xs @ ys) = outcomes h st xs @ outcomes h (applyLoop h st xs) ys"
  by (induction xs arbitrary: st) simp_all

lemma applyFix_total:
  "appliedCount (applyFix h st fx) + failedCount (applyFix h st fx) + skippedCount (applyFix h st fx)
   = appliedCount st + failedCount st + skippedCount st + 1"
  by (simp add: applyFix_def Let_def split: edit_response.split)

lemma applyLoop_total:
  "appliedCount (applyLoop h st fxs) + failedCount (applyLoop h st fxs) + skippedCount (applyLoop h st fxs)
   = appliedCount st + failedCount st + skippedCount st + length fxs"
  by (induction fxs arbitrary: st) (simp_all add: applyFix_total)

lemma applyFix_one_counter:
  "(appliedCount (applyFix h st fx), failedCount (applyFix h st fx), skippedCount (applyFix h st fx))
   \<in> {(appliedCount st + 1, failedCount st, skippedCount st),
       (appliedCount st, failedCount st + 1, skippedCount st),
       (appliedCount st, failedCount st, skippedCount st + 1)}"
  by (simp add: applyFix_def Let_def split: edit_response.split)

lemma applyFix_applied:
  "appliedCount (applyFix h st fx) = appliedCount st + (if outcomeOf h st fx = Applied then 1 else 0)"
  by (simp add: applyFix_def outcomeOf_def Let_def split: edit_response.split)

lemma applyFix_skipped:
  "skippedCount (applyFix h st fx) = skippedCount st + (if outcomeOf h st fx = SkippedOverlap then 1 else 0)"
  by (simp add: applyFix_def outcomeOf_def Let_def split: edit_response.split)

lemma applyFix_failed:
  "failedCount (applyFix h st fx) = failedCount st +
     (if outcomeOf h st fx \<in> {NotFound, HostRejected, HostThrew} then 1 else 0)"
  by (simp add: applyFix_def outcomeOf_def Let_def split: edit_response.split)

lemma tally_Nil: "tally oc [] = 0"
  by (simp add: tally_def)

lemma tally_Cons: "tally oc (p # tr) = (if snd p = oc then 1 else 0) + tally oc tr"
  by (simp add: tally_def)

lemma applied_tally:
  "appliedCount (applyLoop h st fxs) = appliedCount st + tally Applied (outcomes h st fxs)"
  by (induction fxs arbitrary: st) (simp_all add: tally_Nil tally_Cons applyFix_applied)

lemma skipped_tally:
  "skippedCount (applyLoop h st fxs) = skippedCount st + tally SkippedOverlap (outcomes h st fxs)"
  by (induction fxs arbitrary: st) (simp_all add: tally_Nil tally_Cons applyFix_skipped)

lemma failed_tally:
  "failedCount (applyLoop h st fxs) = failedCount st + tally NotFound (outcomes h st fxs)
     + tally HostRejected (outcomes h st fxs) + tally HostThrew (outcomes h st fxs)"
  by (induction fxs arbitrary: st) (auto simp: tally_Nil tally_Cons applyFix_failed)




lemma empty_anchor_never_notFound: "originalCode fx = [] \<Longrightarrow> outcomeOf h st fx \<noteq> NotFound"
  by (simp add: outcomeOf_def indexOf_empty split: edit_response.split)

lemma mapFixes_total:
  "\<forall>x\<in>set xs. x \<noteq> Null \<and> x \<noteq> Undefined \<Longrightarrow>
   \<exists>fs. mapFixes k xs = Inr fs \<and> length fs = length xs \<and>
        (\<forall>i<length xs. makeSuggestedFix (xs ! i) (k + i) = Inr (fs ! i))"
proof (induction xs arbitrary: k)
  case Nil
  then show ?case by simp
next
  case (Cons x xs)
  from Cons.prems obtain f where f: "makeSuggestedFix x k = Inr f"
    by (auto simp: makeSuggestedFix_def)
  from Cons.prems have "\<forall>y\<in>set xs. y \<noteq> Null \<and> y \<noteq> Undefined" by simp
  from Cons.IH [OF this, of "Suc k"] obtain fs where
    fs: "mapFixes (Suc k) xs = Inr fs" "length fs = length xs"
        "\<forall>i<length xs. makeSuggestedFix (xs ! i) (Suc k + i) = Inr (fs ! i)"
    by blast
  have "makeSuggestedFix ((x # xs) ! i) (k + i) = Inr ((f # fs) ! i)"
    if "i < length (x # xs)" for i
    using that f fs(3) by (cases i) simp_all
  then show ?case using f fs(1,2) by simp
qed








lemma applyLoop_foldl: "applyLoop h st fxs = foldl (\<lambda>s fx. applyFix h s fx) st fxs"
  by (induction fxs arbitrary: st) simp_all

lemma outcomes_by_position:
  "outcomes h st fxs =
     map (\<lambda>k. (fxs ! k, outcomeOf h (foldl (\<lambda>s fx. applyFix h s fx) st (take k fxs)) (fxs ! k)))
       [0..<length fxs]"
proof (induction fxs rule: rev_induct)
  case Nil
  then show ?case by simp
next
  case (snoc x xs)
  have "outcomes h st (xs @ [x]) = outcomes h st xs @ [(x, outcomeOf h (applyLoop h st xs) x)]"
    by (simp add: outcomes_append)
  also have "outcomes h st xs =
      map (\<lambda>k. ((xs @ [x]) ! k,
                 outcomeOf h (foldl (\<lambda>s fx. applyFix h s fx) st (take k (xs @ [x]))) ((xs @ [x]) ! k)))
        [0..<length xs]"
    unfolding snoc.IH by (rule map_cong) (simp_all add: nth_append)
  finally show ?case
    by (simp add: applyLoop_foldl)
qed

lemmas batch_eval =
  applyAllFixes_def sortedFixes_def compareFixes_def initial_state_def applyFix_def
  outcomeOf_def replaceRange_def summaryMessage_def mkFix_def always_def Let_def show_nat.simps

section \<open>The claims\<close>

subsection \<open>C1: the overlap law\<close>

text \<open>
  C1 says: if the anchor spans of two proposals, resolved in the document before the
  batch, share a character, one call of applyAllFixes applies at most one of them.
  The code compares the span found in the current text with the spans recorded before
  earlier edits changed the text. In the document \<open>abc\<close> the anchors \<open>ab\<close> and \<open>bc\<close>
  occupy the offsets 0 to 2 and 1 to 3 and share offset 1. The first fix is applied and
  its range 0 to 2 is recorded; its replacement \<open>xxb\<close> moves \<open>bc\<close> to the offsets 2 to 4,
  which the check finds clear of 0 to 2, so the second fix is applied as well and
  rewrites the \<open>b\<close> the first one wrote.
\<close>

theorem overlapping_anchors_both_applied:
  "indexOf ''abc'' ''ab'' = 0 \<and> indexOf ''abc'' ''bc'' = 1 \<and>
   outcomes (always EditApplied) (initial_state ''abc'')
     (sortedFixes [mkFix ''ab'' ''xxb'' 1 1, mkFix ''bc'' ''Q'' 1 1]) =
     [(mkFix ''ab'' ''xxb'' 1 1, Applied), (mkFix ''bc'' ''Q'' 1 1, Applied)] \<and>
   applyAllFixes YesApplyAll (always EditApplied) ''abc''
     [mkFix ''ab'' ''xxb'' 1 1, mkFix ''bc'' ''Q'' 1 1] =
     Completed \<lparr>document = ''xxQ'', appliedCount = 2, failedCount = 0, skippedCount = 0,
                modifiedRanges = [\<lparr>range_start = 0, range_end = 2\<rparr>,
                                  \<lparr>range_start = 2, range_end = 4\<rparr>],
                editCalls = 2\<rparr>
       ''Applied 2 fixes.''"
  by (simp add: batch_eval)

subsection \<open>C2: the eval scenario\<close>

text \<open>
  C2: on the document \<open>let x = eval(input);\<newline>console.log(x);\<close> with the one
  proposal that replaces \<open>eval(input)\<close> by \<open>JSON.parse(input)\<close> (lines 1 to 1), the
  batch applier counts one applied fix and leaves the document
  \<open>let x = JSON.parse(input);\<newline>console.log(x);\<close>. The user confirms the batch and
  the host carries the one edit out.
\<close>

theorem scenario_eval_replaced:
  assumes "originalCode p = ''eval(input)''" and "fixedCode p = ''JSON.parse(input)''"
    and "lineStart p = 1" and "lineEnd p = 1" and "h 0 = EditApplied"
  shows "\<exists>st msg. applyAllFixes YesApplyAll h scenario_document [p] = Completed st msg \<and>
           appliedCount st = 1 \<and> failedCount st = 0 \<and> skippedCount st = 0 \<and>
           document st = scenario_result"
  using assms
  by (simp add: applyAllFixes_def sortedFixes_def initial_state_def applyFix_def
        replaceRange_def scenario_document_def scenario_result_def Let_def)

text \<open>C2, witness: the scenario with a concrete proposal and a host that accepts.\<close>

theorem scenario_eval_replaced_witness:
  "\<exists>st msg. applyAllFixes YesApplyAll (always EditApplied) scenario_document
       [mkFix ''eval(input)'' ''JSON.parse(input)'' 1 1] = Completed st msg \<and>
     appliedCount st = 1 \<and> failedCount st = 0 \<and> skippedCount st = 0 \<and>
     document st = scenario_result"
  using scenario_eval_replaced [of "mkFix ''eval(input)'' ''JSON.parse(input)'' 1 1" "always EditApplied"]
  by (simp add: mkFix_def always_def)

subsection \<open>C3: what the counters tell apart\<close>

text \<open>
  C3 as stated fails: a proposal whose anchor is absent is counted in \<open>failedCount\<close>,
  with no host edit refused (none was even requested), and the result is the one a
  refused host edit gives: the same three counters and the same message.
\<close>

theorem notFound_counted_as_failed:
  "applyAllFixes YesApplyAll (always EditApplied) ''abc'' [mkFix ''zzz'' ''y'' 1 1] =
     Completed \<lparr>document = ''abc'', appliedCount = 0, failedCount = 1, skippedCount = 0,
                modifiedRanges = [], editCalls = 0\<rparr>
       ''Applied 0 fixes. 1 could not be applied.'' \<and>
   outcomes (always EditApplied) (initial_state ''abc'') [mkFix ''zzz'' ''y'' 1 1] =
     [(mkFix ''zzz'' ''y'' 1 1, NotFound)] \<and>
   applyAllFixes YesApplyAll (always EditRejected) ''abc'' [mkFix ''abc'' ''y'' 1 1] =
     Completed \<lparr>document = ''abc'', appliedCount = 0, failedCount = 1, skippedCount = 0,
                modifiedRanges = [], editCalls = 1\<rparr>
       ''Applied 0 fixes. 1 could not be applied.''"
  by (simp add: batch_eval)

text \<open>
  C3, amended: the batch keeps three counters. \<open>appliedCount\<close> counts the applied
  proposals, \<open>skippedCount\<close> the ones skipped for overlap, and \<open>failedCount\<close> counts
  together the proposals whose anchor is absent from the current text at their step,
  the ones whose host edit was refused and the ones whose processing threw.
\<close>

theorem failedCount_covers_three_outcomes:
  "appliedCount (applyLoop h (initial_state text) fxs) =
     tally Applied (outcomes h (initial_state text) fxs) \<and>
   skippedCount (applyLoop h (initial_state text) fxs) =
     tally SkippedOverlap (outcomes h (initial_state text) fxs) \<and>
   failedCount (applyLoop h (initial_state text) fxs) =
     tally NotFound (outcomes h (initial_state text) fxs) +
     tally HostRejected (outcomes h (initial_state text) fxs) +
     tally HostThrew (outcomes h (initial_state text) fxs)"
  by (simp add: applied_tally skipped_tally failed_tally initial_state_def)

subsection \<open>C4: the empty anchor\<close>

text \<open>
  C4 says: a proposal with an empty anchor and lines 2 to 2 is reported as not found
  and the document stays as it was. In the code \<open>indexOf\<close> finds the empty string at
  offset 0, so the proposal is never not found: with nothing recorded yet and a host
  that accepts, the replacement is inserted in front of the first line and the proposal
  is counted as applied.
\<close>

theorem empty_anchor_inserts_at_start:
  "applyAllFixes YesApplyAll (always EditApplied) (''a'' @ [CHR 0x0A] @ ''b'')
     [mkFix [] ''X'' 2 2] =
     Completed \<lparr>document = ''Xa'' @ [CHR 0x0A] @ ''b'', appliedCount = 1, failedCount = 0,
                skippedCount = 0, modifiedRanges = [\<lparr>range_start = 0, range_end = 0\<rparr>],
                editCalls = 1\<rparr>
       ''Applied 1 fix.'' \<and>
   outcomes (always EditApplied) (initial_state (''a'' @ [CHR 0x0A] @ ''b''))
     (sortedFixes [mkFix [] ''X'' 2 2]) = [(mkFix [] ''X'' 2 2, Applied)]"
  by (simp add: batch_eval)

subsection \<open>C5: running the batch again\<close>




subsection \<open>C6: the order of processing\<close>




subsection \<open>C7: the loop does not stop at a failure\<close>

text \<open>
  C7: when the host refuses the edit of one proposal, or its processing throws, that
  proposal is counted as failed and leaves the document alone, and the loop goes on
  with the state it left: every proposal of the batch has its outcome, and each of the
  remaining ones adds one to the counters.
\<close>

theorem loop_continues_after_failure:
  assumes "outcomeOf h (applyLoop h st before) fx = HostRejected \<or>
           outcomeOf h (applyLoop h st before) fx = HostThrew"
  shows "failedCount (applyLoop h st (before @ [fx])) = failedCount (applyLoop h st before) + 1 \<and>
         document (applyLoop h st (before @ [fx])) = document (applyLoop h st before) \<and>
         applyLoop h st (before @ fx # rest) = applyLoop h (applyLoop h st (before @ [fx])) rest \<and>
         map fst (outcomes h st (before @ fx # rest)) = before @ fx # rest \<and>
         appliedCount (applyLoop h st (before @ fx # rest)) +
         failedCount (applyLoop h st (before @ fx # rest)) +
         skippedCount (applyLoop h st (before @ fx # rest)) =
           appliedCount (applyLoop h st (before @ [fx])) +
           failedCount (applyLoop h st (before @ [fx])) +
           skippedCount (applyLoop h st (before @ [fx])) + length rest"
proof -
  let ?s = "applyLoop h st before"
  have one: "applyLoop h st (before @ [fx]) = applyFix h ?s fx"
    by (simp add: applyLoop_append)
  have failed: "failedCount (applyFix h ?s fx) = failedCount ?s + 1"
    using assms by (auto simp: applyFix_failed)
  have same: "document (applyFix h ?s fx) = document ?s"
    using assms
    by (auto simp: applyFix_def outcomeOf_def Let_def split: if_splits edit_response.splits)
  have split: "applyLoop h st (before @ fx # rest) = applyLoop h (applyFix h ?s fx) rest"
    by (simp add: applyLoop_append)
  show ?thesis
    by (simp add: one failed same split fst_outcomes applyLoop_total)
qed

text \<open>
  C7, witness: a batch of three proposals in which the host refuses the first request,
  the one for the proposal on line 3; the two proposals on line 1 are applied after it.
\<close>

theorem loop_continues_after_failure_witness:
  "outcomeOf rejectFirst (applyLoop rejectFirst (initial_state ''a b c'') []) (mkFix ''c'' ''C'' 3 3)
     = HostRejected \<and>
   outcomes rejectFirst (initial_state ''a b c'')
     (sortedFixes [mkFix ''a'' ''A'' 1 1, mkFix ''b'' ''B'' 1 1, mkFix ''c'' ''C'' 3 3]) =
     [(mkFix ''c'' ''C'' 3 3, HostRejected), (mkFix ''a'' ''A'' 1 1, Applied),
      (mkFix ''b'' ''B'' 1 1, Applied)] \<and>
   applyLoop rejectFirst (initial_state ''a b c'')
     ([] @ mkFix ''c'' ''C'' 3 3 # [mkFix ''a'' ''A'' 1 1, mkFix ''b'' ''B'' 1 1]) =
     \<lparr>document = ''A B c'', appliedCount = 2, failedCount = 1, skippedCount = 0,
      modifiedRanges = [\<lparr>range_start = 0, range_end = 1\<rparr>, \<lparr>range_start = 2, range_end = 3\<rparr>],
      editCalls = 3\<rparr>"
  using loop_continues_after_failure [of rejectFirst "initial_state ''a b c''" "[]"
      "mkFix ''c'' ''C'' 3 3" "[mkFix ''a'' ''A'' 1 1, mkFix ''b'' ''B'' 1 1]"]
  by (simp add: batch_eval rejectFirst_def)

subsection \<open>C8: the line fallback\<close>

text \<open>
  C8 as stated fails: the line fallback does not clamp against the number of lines of
  the document. For a document of two lines and a proposal for the lines 10 to 12 the
  requested range runs from line 9 to line 12, where the clamped range of the
  specification runs from line 1 to line 2.
\<close>

theorem fallback_upper_bound_not_clamped:
  "lineCount (''a'' @ [CHR 0x0A] @ ''b'') = 2 \<and>
   indexOf (''a'' @ [CHR 0x0A] @ ''b'') ''zzz'' = -1 \<and>
   applySingleFix YesApply (''a'' @ [CHR 0x0A] @ ''b'') (mkFix ''zzz'' ''y'' 10 12) =
     ReplaceLines (Range (Position 9 0) (Position 12 0)) (''y'' @ [CHR 0x0A]) \<and>
   spec_fallbackRange (''a'' @ [CHR 0x0A] @ ''b'') (mkFix ''zzz'' ''y'' 10 12) =
     Range (Position 1 0) (Position 2 0) \<and>
   fallbackRange (mkFix ''zzz'' ''y'' 10 12) \<noteq>
     spec_fallbackRange (''a'' @ [CHR 0x0A] @ ''b'') (mkFix ''zzz'' ''y'' 10 12)"
  by (simp add: lineCount_def applySingleFix_def fallbackRange_def spec_fallbackRange_def
        spec_clampLine_def mkFix_def Let_def)

text \<open>
  C8, amended: when the anchor is not found, \<open>lineEnd\<close> is not negative and the user
  confirms, the line fallback asks the editor to replace the range from the start of
  line \<open>lineStart - 1\<close>, or of line 0 when \<open>lineStart\<close> is below 1, to the start of line
  \<open>lineEnd\<close>, by the replacement text and a line break. Only the start line is clamped,
  and only from below; the range does not depend on the number of lines of the
  document. Without the confirmation no edit is requested.
\<close>

theorem fallback_clamps_start_line_only:
  assumes "indexOf text (originalCode fx) = -1" and "0 \<le> lineEnd fx"
  shows "applySingleFix YesApply text fx =
           ReplaceLines
             (Range (Position (if lineStart fx \<le> 1 then 0 else lineStart fx - 1) 0)
                    (Position (lineEnd fx) 0))
             (fixedCode fx @ [CHR 0x0A]) \<and>
         applySingleFix PreviewFirstChosen text fx = NoEdit \<and>
         applySingleFix NotApplied text fx = NoEdit"
  using assms by (simp add: applySingleFix_def fallbackRange_def Let_def max_def)

text \<open>C8, witness: a proposal for the lines -4 to 7 whose anchor is not in the text.\<close>

theorem fallback_clamps_start_line_only_witness:
  "indexOf ''abc'' ''zzz'' = -1 \<and> (0::int) \<le> 7 \<and>
   applySingleFix YesApply ''abc'' (mkFix ''zzz'' ''y'' (-4) 7) =
     ReplaceLines (Range (Position 0 0) (Position 7 0)) (''y'' @ [CHR 0x0A]) \<and>
   applySingleFix PreviewFirstChosen ''abc'' (mkFix ''zzz'' ''y'' (-4) 7) = NoEdit \<and>
   applySingleFix NotApplied ''abc'' (mkFix ''zzz'' ''y'' (-4) 7) = NoEdit"
proof -
  have nf: "indexOf ''abc'' (originalCode (mkFix ''zzz'' ''y'' (-4) 7)) = -1"
    by (simp add: mkFix_def)
  have le: "0 \<le> lineEnd (mkFix ''zzz'' ''y'' (-4) 7)"
    by (simp add: mkFix_def)
  from fallback_clamps_start_line_only [OF nf le] show ?thesis
    by (simp add: mkFix_def)
qed

subsection \<open>C9: defaults for the fields of a proposal\<close>

text \<open>
  C9 as stated fails: a field of the wrong shape is kept when it is truthy. A number as
  \<open>fixedCode\<close> and a string as \<open>lineStart\<close> arrive in the SuggestedFix unchanged. And an
  entry of the list that is \<open>null\<close> makes the whole conversion throw.
\<close>

theorem wrong_shape_fields_kept:
  "convertFixes (Obj [(''fixes'', Arr [Obj [(''fixedCode'', Num 42), (''lineStart'', Str ''abc'')]])]) =
     Inr [\<lparr>fix_id = Str ''fix_0'', description = Str ''No description'',
           originalCode = Str [], fixedCode = Num 42, lineStart = Str ''abc'',
           lineEnd = Num 1, severity = Str ''info'', fix_type = Str ''style''\<rparr>] \<and>
   convertFixes (Obj [(''fixes'', Arr [Obj [(''fixedCode'', Str ''ok'')], Null])]) = Inl TypeError"
  by (simp add: convertFixes_def makeSuggestedFix_def js_or_def show_nat.simps)

text \<open>
  C9, amended: for a response whose \<open>fixes\<close> is a list without \<open>null\<close> entries the
  conversion raises nothing and gives one SuggestedFix per entry. A field that is absent
  or falsy (\<open>null\<close>, \<open>false\<close>, 0, the empty string) gets its default: \<open>fix_\<close> and the
  index for the id, \<open>No description\<close> for the description, the empty string for the
  original and the fixed code, 1 for both line numbers, \<open>info\<close> for the severity and
  \<open>style\<close> for the type. A field that is truthy is kept as it is, whatever its shape.
\<close>

theorem absent_or_falsy_fields_defaulted:
  assumes "parsed \<noteq> Null" and "parsed \<noteq> Undefined"
    and "getProp parsed ''fixes'' = Arr xs"
    and "\<forall>x\<in>set xs. x \<noteq> Null \<and> x \<noteq> Undefined"
  shows "\<exists>fs. convertFixes parsed = Inr fs \<and> length fs = length xs \<and>
           (\<forall>i<length xs. fs ! i =
              \<lparr>fix_id = (if truthy (getProp (xs ! i) ''id'') then getProp (xs ! i) ''id''
                         else Str (''fix_'' @ show_nat i)),
               description = (if truthy (getProp (xs ! i) ''description'')
                              then getProp (xs ! i) ''description'' else Str ''No description''),
               originalCode = (if truthy (getProp (xs ! i) ''originalCode'')
                               then getProp (xs ! i) ''originalCode'' else Str []),
               fixedCode = (if truthy (getProp (xs ! i) ''fixedCode'')
                            then getProp (xs ! i) ''fixedCode'' else Str []),
               lineStart = (if truthy (getProp (xs ! i) ''lineStart'')
                            then getProp (xs ! i) ''lineStart'' else Num 1),
               lineEnd = (if truthy (getProp (xs ! i) ''lineEnd'')
                          then getProp (xs ! i) ''lineEnd'' else Num 1),
               severity = (if truthy (getProp (xs ! i) ''severity'')
                           then getProp (xs ! i) ''severity'' else Str ''info''),
               fix_type = (if truthy (getProp (xs ! i) ''type'')
                           then getProp (xs ! i) ''type'' else Str ''style'')\<rparr>)"
    (is "\<exists>fs. _ \<and> _ \<and> (\<forall>i<length xs. fs ! i = ?want i)")
proof -
  from mapFixes_total [OF assms(4), of 0] obtain fs where
    fs: "mapFixes 0 xs = Inr fs" "length fs = length xs"
        "\<forall>i<length xs. makeSuggestedFix (xs ! i) i = Inr (fs ! i)"
    by auto
  have conv: "convertFixes parsed = Inr fs"
    using assms(1-3) fs(1) by (simp add: convertFixes_def js_or_def)
  have "fs ! i = ?want i" if i: "i < length xs" for i
  proof -
    from i have "xs ! i \<in> set xs" by simp
    with assms(4) have nn: "xs ! i \<noteq> Null" "xs ! i \<noteq> Undefined" by auto
    from fs(3) i have "makeSuggestedFix (xs ! i) i = Inr (fs ! i)" by simp
    then show ?thesis
      using nn unfolding makeSuggestedFix_def js_or_def by simp
  qed
  with conv fs(2) show ?thesis by blast
qed

text \<open>
  C9, witness: a response with one proposal that has an anchor, the line number 0 and
  a \<open>null\<close> severity; the other fields are absent.
\<close>

theorem absent_or_falsy_fields_defaulted_witness:
  "convertFixes (Obj [(''summary'', Str ''one issue''),
                      (''fixes'', Arr [Obj [(''originalCode'', Str ''eval(x)''),
                                            (''lineStart'', Num 0), (''severity'', Null)]])]) =
     Inr [\<lparr>fix_id = Str ''fix_0'', description = Str ''No description'',
           originalCode = Str ''eval(x)'', fixedCode = Str [], lineStart = Num 1,
           lineEnd = Num 1, severity = Str ''info'', fix_type = Str ''style''\<rparr>]"
proof -
  let ?x = "Obj [(''originalCode'', Str ''eval(x)''), (''lineStart'', Num 0), (''severity'', Null)]"
  let ?parsed = "Obj [(''summary'', Str ''one issue''), (''fixes'', Arr [?x])]"
  have a: "?parsed \<noteq> Null" "?parsed \<noteq> Undefined" by simp_all
  have b: "getProp ?parsed ''fixes'' = Arr [?x]" by simp
  have c: "\<forall>x\<in>set [?x]. x \<noteq> Null \<and> x \<noteq> Undefined" by simp
  from absent_or_falsy_fields_defaulted [OF a b c]
  obtain fs where fs: "convertFixes ?parsed = Inr fs" "length fs = 1"
    "fs ! 0 = \<lparr>fix_id = Str ''fix_0'', description = Str ''No description'',
           originalCode = Str ''eval(x)'', fixedCode = Str [], lineStart = Num 1,
           lineEnd = Num 1, severity = Str ''info'', fix_type = Str ''style''\<rparr>"
    by (auto simp: show_nat.simps)
  from fs(2) obtain f where "fs = [f]"
    by (cases fs) simp_all
  with fs show ?thesis by simp
qed

subsection \<open>C10: the counters add up\<close>

text \<open>
  C10: when the batch has run, each proposal has added one to exactly one of the three
  counters, so \<open>appliedCount + failedCount + skippedCount\<close> is the number of proposals
  (\<open>applyFix_one_counter\<close> is the step, \<open>applyLoop_total\<close> the loop).
\<close>

theorem counters_sum_to_batch_size:
  assumes "applyAllFixes confirm h text fixes = Completed st msg"
  shows "appliedCount st + failedCount st + skippedCount st = length fixes"
proof -
  from assms have "st = applyLoop h (initial_state text) (sortedFixes fixes)"
    by (auto simp: applyAllFixes_def Let_def split: if_splits)
  then show ?thesis
    by (simp add: applyLoop_total initial_state_def sortedFixes_def length_sort_with)
qed

text \<open>
  C10, witness: three proposals, one applied, one refused by the host and one whose
  anchor is absent.
\<close>

theorem counters_sum_to_batch_size_witness:
  "applyAllFixes YesApplyAll rejectFirst ''a b c''
     [mkFix ''a'' ''A'' 1 1, mkFix ''zzz'' ''B'' 1 1, mkFix ''c'' ''C'' 3 3] =
     Completed \<lparr>document = ''A b c'', appliedCount = 1, failedCount = 2, skippedCount = 0,
                modifiedRanges = [\<lparr>range_start = 0, range_end = 1\<rparr>], editCalls = 2\<rparr>
       ''Applied 1 fix. 2 could not be applied.'' \<and>
   (1::nat) + 2 + 0 = length [mkFix ''a'' ''A'' 1 1, mkFix ''zzz'' ''B'' 1 1, mkFix ''c'' ''C'' 3 3]"
proof -
  have run: "applyAllFixes YesApplyAll rejectFirst ''a b c''
     [mkFix ''a'' ''A'' 1 1, mkFix ''zzz'' ''B'' 1 1, mkFix ''c'' ''C'' 3 3] =
     Completed \<lparr>document = ''A b c'', appliedCount = 1, failedCount = 2, skippedCount = 0,
                modifiedRanges = [\<lparr>range_start = 0, range_end = 1\<rparr>], editCalls = 2\<rparr>
       ''Applied 1 fix. 2 could not be applied.''"
    by (simp add: batch_eval rejectFirst_def)
  from counters_sum_to_batch_size [OF run] show ?thesis using run by simp
qed

end
